theory Spec2Isabelle
  imports Main "HOL-Library.AList"
begin

section \<open>Metadata ledger: ingestor/metadata_manager.py\<close>

text \<open>
  \<^verbatim>\<open>MetadataManager.metadata\<close> is a dictionary with the keys \<^verbatim>\<open>version\<close>,
  \<^verbatim>\<open>created_at\<close>, \<^verbatim>\<open>documents\<close> and \<^verbatim>\<open>statistics\<close>. The documents dictionary is
  an association list in insertion order: \<open>AList.update\<close> overwrites a key in place or
  appends it, \<open>AList.delete\<close> removes it, \<open>map_of\<close> looks it up and \<open>length\<close> is
  Python's \<^verbatim>\<open>len\<close>. Python integers are \<open>int\<close>. The clock
  (\<^verbatim>\<open>datetime.now().isoformat()\<close>) is an argument \<open>now\<close> of each operation that reads it.
  Writing the file (\<^verbatim>\<open>_save_metadata\<close>) catches every exception and does not change
  the dictionary in memory, so it leaves no trace in the state below. The bodies of
  \<^verbatim>\<open>register_document\<close>, \<^verbatim>\<open>unregister_document\<close> and \<^verbatim>\<open>update_document_status\<close>
  are under \<^verbatim>\<open>except Exception: return False\<close>; on a dictionary of the shape below none
  of their statements raises, so the boolean they return is the one of the normal path.
\<close>

record document_entry =
  filename :: string
  chunk_count :: int
  file_size :: int
  ingested_at :: string
  status :: string
  last_updated :: "string option"

record statistics_rec =
  total_documents :: int
  total_chunks :: int
  total_size_bytes :: int

record metadata =
  version :: string
  created_at :: string
  documents :: "(string \<times> document_entry) list"
  statistics :: statistics_rec

definition create_empty_metadata :: "string \<Rightarrow> metadata" where
  "create_empty_metadata now =
     \<lparr>version = ''1.0'', created_at = now, documents = [],
      statistics = \<lparr>total_documents = 0, total_chunks = 0, total_size_bytes = 0\<rparr>\<rparr>"

definition register_document ::
  "string \<Rightarrow> string \<Rightarrow> int \<Rightarrow> int \<Rightarrow> string \<Rightarrow> metadata \<Rightarrow> bool \<times> metadata" where
  "register_document doc_id fname n_chunks n_bytes now m =
     (let docs = AList.update doc_id
                   \<lparr>filename = fname, chunk_count = n_chunks, file_size = n_bytes,
                    ingested_at = now, status = ''indexed'', last_updated = None\<rparr>
                   (documents m);
          st = statistics m
      in (True,
          m\<lparr>documents := docs,
            statistics := st\<lparr>total_documents := int (length docs),
                              total_chunks := total_chunks st + n_chunks,
                              total_size_bytes := total_size_bytes st + n_bytes\<rparr>\<rparr>))"

definition unregister_document :: "string \<Rightarrow> metadata \<Rightarrow> bool \<times> metadata" where
  "unregister_document doc_id m =
     (case map_of (documents m) doc_id of
        Some doc \<Rightarrow>
          (let st = statistics m
           in (True,
               m\<lparr>statistics := st\<lparr>total_documents := total_documents st - 1,
                                   total_chunks := total_chunks st - chunk_count doc,
                                   total_size_bytes := total_size_bytes st - file_size doc\<rparr>,
                 documents := AList.delete doc_id (documents m)\<rparr>))
      | None \<Rightarrow> (False, m))"

definition get_document_info :: "string \<Rightarrow> metadata \<Rightarrow> document_entry option" where
  "get_document_info doc_id m = map_of (documents m) doc_id"

definition get_all_documents :: "metadata \<Rightarrow> (string \<times> document_entry) list" where
  "get_all_documents m = documents m"

definition get_statistics :: "metadata \<Rightarrow> statistics_rec" where
  "get_statistics m = statistics m"

definition document_exists :: "string \<Rightarrow> metadata \<Rightarrow> bool" where
  "document_exists doc_id m = (map_of (documents m) doc_id \<noteq> None)"

definition get_documents_by_filename :: "string \<Rightarrow> metadata \<Rightarrow> string list" where
  "get_documents_by_filename fname m =
     map fst (filter (\<lambda>(doc_id, info). filename info = fname) (documents m))"

definition update_document_status ::
  "string \<Rightarrow> string \<Rightarrow> string \<Rightarrow> metadata \<Rightarrow> bool \<times> metadata" where
  "update_document_status doc_id new_status now m =
     (case map_of (documents m) doc_id of
        Some doc \<Rightarrow>
          (True,
           m\<lparr>documents :=
               AList.update doc_id (doc\<lparr>status := new_status, last_updated := Some now\<rparr>)
                 (documents m)\<rparr>)
      | None \<Rightarrow> (False, m))"

definition clear_all_metadata :: "string \<Rightarrow> metadata \<Rightarrow> metadata" where
  "clear_all_metadata now m = create_empty_metadata now"

text \<open>
  A sequence of calls on one manager, starting from the empty ledger: the reachable
  ledger states are the values of \<open>run_ops\<close>.
\<close>

datatype ledger_op =
    Register string string int int string
  | Unregister string
  | UpdateStatus string string string
  | ClearAll string

fun apply_op :: "ledger_op \<Rightarrow> metadata \<Rightarrow> metadata" where
  "apply_op (Register doc_id fname n_chunks n_bytes now) m =
     snd (register_document doc_id fname n_chunks n_bytes now m)"
| "apply_op (Unregister doc_id) m = snd (unregister_document doc_id m)"
| "apply_op (UpdateStatus doc_id new_status now) m =
     snd (update_document_status doc_id new_status now m)"
| "apply_op (ClearAll now) m = clear_all_metadata now m"

definition run_ops :: "ledger_op list \<Rightarrow> metadata \<Rightarrow> metadata" where
  "run_ops ops m = foldl (\<lambda>s a. apply_op a s) m ops"

text \<open>
  The statistics recomputed from scratch, as the specification words them: the sums of
  \<open>(1, chunk_count, file_size)\<close> over the entries currently registered.
\<close>

definition recomputed_statistics :: "(string \<times> document_entry) list \<Rightarrow> statistics_rec" where
  "recomputed_statistics docs =
     \<lparr>total_documents = int (length docs),
      total_chunks = sum_list (map (\<lambda>(doc_id, info). chunk_count info) docs),
      total_size_bytes = sum_list (map (\<lambda>(doc_id, info). file_size info) docs)\<rparr>"

section \<open>Exceptions, documents and JSON values\<close>

text \<open>
  Every \<^verbatim>\<open>raise\<close> of the source is a value: a function that can raise returns
  \<open>py_exception + 'a\<close>, with \<open>Inl\<close> the exception. \<^verbatim>\<open>CustomException(e, sys)\<close> of
  \<^verbatim>\<open>utils.exception\<close> wraps the exception it is given. A LangChain \<^verbatim>\<open>Document\<close> has a
  text and a metadata dictionary. Strings are lists of 8-bit characters, so the model
  covers the texts whose code points are below 256.
\<close>

datatype py_exception =
    Exception string
  | FileNotFoundError string
  | ValueError string
  | AttributeError string
  | TypeError string
  | CustomException py_exception

datatype document = Document (page_content: string) (metadata: "(string \<times> string) list")

datatype json =
    JNull
  | JBool bool
  | JInt int
  | JString string
  | JArray "json list"
  | JObject "(string \<times> json) list"

section \<open>Loading the ledger: \<^verbatim>\<open>_load_metadata\<close> and the constructor\<close>

text \<open>
  The dictionary that \<^verbatim>\<open>json.dump\<close> writes and \<^verbatim>\<open>json.load\<close> reads back, for a ledger
  of the shape above.
\<close>

definition entry_to_json :: "document_entry \<Rightarrow> json" where
  "entry_to_json e =
     JObject ([(''filename'', JString (filename e)), (''chunk_count'', JInt (chunk_count e)),
               (''file_size'', JInt (file_size e)), (''ingested_at'', JString (ingested_at e)),
               (''status'', JString (status e))]
              @ (case last_updated e of None \<Rightarrow> [] | Some t \<Rightarrow> [(''last_updated'', JString t)]))"

definition metadata_to_json :: "metadata \<Rightarrow> json" where
  "metadata_to_json m =
     JObject [(''version'', JString (version m)), (''created_at'', JString (created_at m)),
              (''documents'', JObject (map (\<lambda>(doc_id, e). (doc_id, entry_to_json e)) (documents m))),
              (''statistics'',
                 JObject [(''total_documents'', JInt (total_documents (statistics m))),
                          (''total_chunks'', JInt (total_chunks (statistics m))),
                          (''total_size_bytes'', JInt (total_size_bytes (statistics m)))])]"

text \<open>
  The file system and the JSON parser are outside the repository: a path is missing,
  or exists but cannot be opened or read, or has contents; \<open>json_load\<close> is the parser.
\<close>

datatype file_state = Missing | Unreadable py_exception | Contents string

text \<open>\<^verbatim>\<open>data.get(key, default)\<close> and \<^verbatim>\<open>len(x)\<close> on a parsed JSON value.\<close>

fun dict_get_default :: "json \<Rightarrow> string \<Rightarrow> json \<Rightarrow> py_exception + json" where
  "dict_get_default (JObject kvs) key dflt =
     Inr (case map_of kvs key of Some v \<Rightarrow> v | None \<Rightarrow> dflt)"
| "dict_get_default other key dflt = Inl (AttributeError ''object has no attribute get'')"

fun py_len :: "json \<Rightarrow> py_exception + nat" where
  "py_len (JObject kvs) = Inr (length kvs)"
| "py_len (JArray xs) = Inr (length xs)"
| "py_len (JString s) = Inr (length s)"
| "py_len other = Inl (TypeError ''object has no len()'')"

text \<open>The body of the \<^verbatim>\<open>try\<close> block: open, parse, log the number of documents, return.\<close>

definition load_metadata_try ::
  "(string \<Rightarrow> py_exception + json) \<Rightarrow> file_state \<Rightarrow> py_exception + json" where
  "load_metadata_try json_load f =
     (case f of
        Missing \<Rightarrow> Inl (FileNotFoundError ''No such file or directory'')
      | Unreadable e \<Rightarrow> Inl e
      | Contents text \<Rightarrow>
          (case json_load text of
             Inl e \<Rightarrow> Inl e
           | Inr data \<Rightarrow>
               (case dict_get_default data ''documents'' (JObject []) of
                  Inl e \<Rightarrow> Inl e
                | Inr docs \<Rightarrow>
                    (case py_len docs of
                       Inl e \<Rightarrow> Inl e
                     | Inr n \<Rightarrow> Inr data))))"

definition load_metadata ::
  "(string \<Rightarrow> file_state) \<Rightarrow> (string \<Rightarrow> py_exception + json) \<Rightarrow> string \<Rightarrow> string
     \<Rightarrow> py_exception + json" where
  "load_metadata fs json_load now metadata_file =
     (if fs metadata_file \<noteq> Missing then
        (case load_metadata_try json_load (fs metadata_file) of
           Inr data \<Rightarrow> Inr data
         | Inl e \<Rightarrow> Inr (metadata_to_json (create_empty_metadata now)))
      else Inr (metadata_to_json (create_empty_metadata now)))"

record metadata_manager =
  metadata_file :: string
  manager_metadata :: json

definition init_metadata_manager ::
  "(string \<Rightarrow> file_state) \<Rightarrow> (string \<Rightarrow> py_exception + json) \<Rightarrow> string \<Rightarrow> string
     \<Rightarrow> py_exception + metadata_manager" where
  "init_metadata_manager fs json_load now file =
     (case load_metadata fs json_load now file of
        Inl e \<Rightarrow> Inl e
      | Inr data \<Rightarrow> Inr \<lparr>metadata_file = file, manager_metadata = data\<rparr>)"

section \<open>Chunk processing: ingestor/processor.py\<close>

text \<open>
  \<^verbatim>\<open>os.path.exists\<close>, \<^verbatim>\<open>UnstructuredFileLoader(path).load()\<close> and the text splitter's
  \<^verbatim>\<open>split_text\<close> are outside the repository and are arguments. LangChain's
  \<^verbatim>\<open>split_documents\<close> splits the text of each document and copies that document's
  metadata to each piece.
\<close>

definition stamp :: "string \<Rightarrow> string \<Rightarrow> string \<Rightarrow> document \<Rightarrow> document" where
  "stamp doc_id fname file_path doc =
     Document (page_content doc)
       (AList.update ''source_path'' file_path
          (AList.update ''filename'' fname
             (AList.update ''document_id'' doc_id (metadata doc))))"

definition split_documents :: "(string \<Rightarrow> string list) \<Rightarrow> document list \<Rightarrow> document list" where
  "split_documents split_text docs =
     concat (map (\<lambda>d. map (\<lambda>t. Document t (metadata d)) (split_text (page_content d))) docs)"

definition load_documents ::
  "(string \<Rightarrow> bool) \<Rightarrow> (string \<Rightarrow> py_exception + document list) \<Rightarrow> string \<Rightarrow> string
     \<Rightarrow> py_exception + document list" where
  "load_documents path_exists loader_load file_path fname =
     (if \<not> path_exists file_path then Inl (FileNotFoundError (''File not found: '' @ file_path))
      else case loader_load file_path of
             Inl e \<Rightarrow> Inl e
           | Inr docs \<Rightarrow>
               if docs = [] then Inl (ValueError (''No content loaded from '' @ fname))
               else Inr docs)"

definition load_and_split_document ::
  "(string \<Rightarrow> bool) \<Rightarrow> (string \<Rightarrow> py_exception + document list) \<Rightarrow> (string \<Rightarrow> string list)
     \<Rightarrow> string \<Rightarrow> string \<Rightarrow> string \<Rightarrow> py_exception + document list" where
  "load_and_split_document path_exists loader_load split_text file_path doc_id fname =
     (case load_documents path_exists loader_load file_path fname of
        Inl e \<Rightarrow> Inl (CustomException e)
      | Inr docs \<Rightarrow>
          Inr (split_documents split_text (map (stamp doc_id fname file_path) docs)))"

text \<open>
  \<^verbatim>\<open>str.isspace\<close> for the code points below 256, and \<^verbatim>\<open>str.strip()\<close>.
\<close>

definition isspace :: "char \<Rightarrow> bool" where
  "isspace c = (let n = (of_char c :: nat)
                in (9 \<le> n \<and> n \<le> 13) \<or> (28 \<le> n \<and> n \<le> 32) \<or> n = 133 \<or> n = 160)"

definition strip :: "string \<Rightarrow> string" where
  "strip s = rev (dropWhile isspace (rev (dropWhile isspace s)))"

definition required_fields :: "string list" where
  "required_fields = [''document_id'', ''filename'', ''source_path'']"

fun fields_present :: "string list \<Rightarrow> (string \<times> string) list \<Rightarrow> bool" where
  "fields_present [] md = True"
| "fields_present (field # rest) md =
     (if map_of md field = None then False else fields_present rest md)"

fun validate_loop :: "document list \<Rightarrow> bool" where
  "validate_loop [] = True"
| "validate_loop (chunk # chunks) =
     (if \<not> fields_present required_fields (metadata chunk) then False
      else if page_content chunk = [] \<or> length (strip (page_content chunk)) = 0 then False
      else validate_loop chunks)"

definition validate_chunks :: "document list \<Rightarrow> bool" where
  "validate_chunks chunks = (if chunks = [] then False else validate_loop chunks)"

section \<open>Vector store: core/vector_store.py\<close>

text \<open>
  The Qdrant client and LangChain's \<^verbatim>\<open>QdrantVectorStore\<close> are outside the repository:
  they are a record of operations on a collection state \<open>'s\<close>.
  \<open>get_points_count\<close> is \<^verbatim>\<open>client.get_collection(name).points_count\<close>,
  \<open>create_vectorstore\<close> the constructor call inside \<^verbatim>\<open>get_vectorstore\<close>,
  \<open>add_documents\<close> returns the identifiers (or raises) and the collection it leaves,
  \<open>similarity_search\<close> is what a retriever of search type \<^verbatim>\<open>similarity\<close> runs with
  its \<^verbatim>\<open>k\<close> and \<^verbatim>\<open>filter\<close>.
\<close>

datatype match_condition = MatchAny (any_of: "string list")

datatype field_condition = FieldCondition (key: string) (match_of: match_condition)

datatype qdrant_filter = Filter (must: "field_condition list")

record 's qdrant_client =
  get_points_count :: "'s \<Rightarrow> py_exception + int"
  create_vectorstore :: "'s \<Rightarrow> py_exception + unit"
  add_documents :: "'s \<Rightarrow> document list \<Rightarrow> (py_exception + string list) \<times> 's"
  similarity_search ::
    "'s \<Rightarrow> string \<Rightarrow> nat \<Rightarrow> qdrant_filter option \<Rightarrow> py_exception + document list"

text \<open>The warnings and errors that the functions log; the other log lines are left out.\<close>

datatype log_event =
    WarnNoDocuments
  | ErrorVectorstoreFailed py_exception
  | ErrorNoPointsAdded
  | WarnPointsMismatch nat int
  | ErrorIndexingFailed py_exception

definition get_vectorstore :: "'s qdrant_client \<Rightarrow> 's \<Rightarrow> (py_exception + unit) \<times> log_event list" where
  "get_vectorstore client st =
     (case create_vectorstore client st of
        Inl e \<Rightarrow> (Inl (CustomException e), [ErrorVectorstoreFailed e])
      | Inr vs \<Rightarrow> (Inr vs, []))"

text \<open>The body of the \<^verbatim>\<open>try\<close> block of \<^verbatim>\<open>index_documents\<close>, for a non-empty list.\<close>

definition index_documents_try ::
  "'s qdrant_client \<Rightarrow> 's \<Rightarrow> document list \<Rightarrow> (py_exception + string list) \<times> 's \<times> log_event list" where
  "index_documents_try client st docs =
     (case get_points_count client st of
        Inl e \<Rightarrow> (Inl e, st, [])
      | Inr points_before \<Rightarrow>
          (case get_vectorstore client st of
             (Inl e, lg) \<Rightarrow> (Inl e, st, lg)
           | (Inr vs, lg) \<Rightarrow>
               (case add_documents client st docs of
                  (Inl e, st') \<Rightarrow> (Inl e, st', lg)
                | (Inr ids, st') \<Rightarrow>
                    (case get_points_count client st' of
                       Inl e \<Rightarrow> (Inl e, st', lg)
                     | Inr points_after \<Rightarrow>
                         (let points_added = points_after - points_before in
                          if points_added = 0 then
                            (Inl (Exception ''Documents were not indexed - no points added to collection!''),
                             st', lg @ [ErrorNoPointsAdded])
                          else
                            (Inr ids, st',
                             lg @ (if points_added \<noteq> int (length docs)
                                   then [WarnPointsMismatch (length docs) points_added]
                                   else [])))))))"

definition index_documents ::
  "'s qdrant_client \<Rightarrow> 's \<Rightarrow> document list \<Rightarrow> (py_exception + string list) \<times> 's \<times> log_event list" where
  "index_documents client st docs =
     (if docs = [] then (Inr [], st, [WarnNoDocuments])
      else case index_documents_try client st docs of
             (Inl e, st', lg) \<Rightarrow> (Inl (CustomException e), st', lg @ [ErrorIndexingFailed e])
           | (Inr ids, st', lg) \<Rightarrow> (Inr ids, st', lg))"

section \<open>Retrieval: core/retriever.py\<close>

record search_kwargs =
  kw_k :: nat
  kw_filter :: "qdrant_filter option"

datatype retriever = Retriever (search_type: string) (kwargs: search_kwargs)

definition get_unfiltered_retriever ::
  "'s qdrant_client \<Rightarrow> 's \<Rightarrow> nat \<Rightarrow> py_exception + retriever" where
  "get_unfiltered_retriever client st k =
     (case fst (get_vectorstore client st) of
        Inl e \<Rightarrow> Inl e
      | Inr vs \<Rightarrow> Inr (Retriever ''similarity'' \<lparr>kw_k = k, kw_filter = None\<rparr>))"

definition get_filtered_retriever ::
  "'s qdrant_client \<Rightarrow> 's \<Rightarrow> string list \<Rightarrow> nat \<Rightarrow> py_exception + retriever" where
  "get_filtered_retriever client st doc_ids k =
     (if doc_ids = [] then get_unfiltered_retriever client st k
      else case fst (get_vectorstore client st) of
             Inl e \<Rightarrow> Inl e
           | Inr vs \<Rightarrow>
               Inr (Retriever ''similarity''
                      \<lparr>kw_k = k,
                       kw_filter = Some (Filter [FieldCondition ''metadata.document_id''
                                                   (MatchAny doc_ids)])\<rparr>))"

definition invoke :: "'s qdrant_client \<Rightarrow> 's \<Rightarrow> retriever \<Rightarrow> string \<Rightarrow> py_exception + document list" where
  "invoke client st r query =
     similarity_search client st query (kw_k (kwargs r)) (kw_filter (kwargs r))"

definition retrieve_documents ::
  "'s qdrant_client \<Rightarrow> 's \<Rightarrow> string \<Rightarrow> string list \<Rightarrow> nat \<Rightarrow> py_exception + document list" where
  "retrieve_documents client st query doc_ids k =
     (case (if doc_ids \<noteq> [] then get_filtered_retriever client st doc_ids k
            else get_unfiltered_retriever client st k) of
        Inl e \<Rightarrow> Inl e
      | Inr r \<Rightarrow>
          (case invoke client st r query of
             Inl e \<Rightarrow> Inl e
           | Inr docs \<Rightarrow> Inr docs))"

section \<open>A reference collection\<close>

text \<open>
  A collection with a single writer, standing in for Qdrant where a claim is about what
  the store does: the collection is the list of stored payloads, \<open>add_documents\<close> stores
  one point for each document under a new identifier, and a similarity search ranks
  the payloads (\<open>rank\<close>, the embedding order, is arbitrary), keeps those that satisfy the
  filter and returns the first \<open>k\<close>. A field condition with \<^verbatim>\<open>MatchAny\<close> holds when the
  payload has the key and its value is one of the listed values.
\<close>

definition payload_value :: "string \<Rightarrow> document \<Rightarrow> string option" where
  "payload_value k d =
     (if k = ''page_content'' then Some (page_content d)
      else if take 9 k = ''metadata.'' then map_of (metadata d) (drop 9 k)
      else None)"

fun condition_holds :: "field_condition \<Rightarrow> document \<Rightarrow> bool" where
  "condition_holds (FieldCondition k (MatchAny vals)) d =
     (case payload_value k d of Some v \<Rightarrow> v \<in> set vals | None \<Rightarrow> False)"

fun filter_holds :: "qdrant_filter option \<Rightarrow> document \<Rightarrow> bool" where
  "filter_holds None d = True"
| "filter_holds (Some (Filter conds)) d = list_all (\<lambda>c. condition_holds c d) conds"

definition reference_client ::
  "(nat \<Rightarrow> string) \<Rightarrow> (string \<Rightarrow> document list \<Rightarrow> document list) \<Rightarrow> (document list) qdrant_client" where
  "reference_client new_id rank =
     \<lparr>get_points_count = (\<lambda>pts. Inr (int (length pts))),
      create_vectorstore = (\<lambda>pts. Inr ()),
      add_documents = (\<lambda>pts docs.
         (Inr (map (\<lambda>i. new_id (length pts + i)) [0..<length docs]), pts @ docs)),
      similarity_search = (\<lambda>pts query k flt.
         Inr (take k (filter (filter_holds flt) (rank query pts))))\<rparr>"

section \<open>Invariants and example data\<close>

text \<open>
  Predicates used to state and prove the ledger properties: the arguments a caller
  passes to \<open>register_document\<close> are a chunk count and a byte size, so they are not
  negative; \<open>count_inv\<close> and \<open>bound_inv\<close> are the invariants of the reachable states.
\<close>

fun register_args_nonneg :: "ledger_op \<Rightarrow> bool" where
  "register_args_nonneg (Register doc_id fname n_chunks n_bytes now) = (0 \<le> n_chunks \<and> 0 \<le> n_bytes)"
| "register_args_nonneg (Unregister doc_id) = True"
| "register_args_nonneg (UpdateStatus doc_id new_status now) = True"
| "register_args_nonneg (ClearAll now) = True"

definition count_inv :: "metadata \<Rightarrow> bool" where
  "count_inv m = (distinct (map fst (documents m)) \<and>
     total_documents (statistics m) = int (length (documents m)))"

definition entries_nonneg :: "(string \<times> document_entry) list \<Rightarrow> bool" where
  "entries_nonneg docs = list_all (\<lambda>(i, e). 0 \<le> chunk_count e \<and> 0 \<le> file_size e) docs"

definition bound_inv :: "metadata \<Rightarrow> bool" where
  "bound_inv m = (count_inv m \<and> entries_nonneg (documents m) \<and>
     total_chunks (recomputed_statistics (documents m)) \<le> total_chunks (statistics m) \<and>
     total_size_bytes (recomputed_statistics (documents m)) \<le> total_size_bytes (statistics m))"

text \<open>
  The ledger of the specification's scenario (two ingested reports), the condition that a
  sequence of calls never registers an identifier that is registered at that moment, and
  the invariant "the stored statistics are the recomputed ones".
\<close>

definition two_docs :: metadata where
  "two_docs = run_ops [Register ''A1'' ''awr1.txt'' 3 1200 ''t1'',
                       Register ''A2'' ''awr2.txt'' 2 800 ''t2''] (create_empty_metadata ''t0'')"

fun fresh_registers :: "ledger_op list \<Rightarrow> metadata \<Rightarrow> bool" where
  "fresh_registers [] m = True"
| "fresh_registers (a # ops) m =
     ((case a of Register doc_id fname n_chunks n_bytes now \<Rightarrow> \<not> document_exists doc_id m
        | _ \<Rightarrow> True) \<and> fresh_registers ops (apply_op a m))"

definition stats_inv :: "metadata \<Rightarrow> bool" where
  "stats_inv m = (distinct (map fst (documents m)) \<and>
     statistics m = recomputed_statistics (documents m))"

text \<open>A chunk carrying the three identity fields, for the examples.\<close>

definition stamped_chunk :: "string \<Rightarrow> document" where
  "stamped_chunk text = Document text [(''document_id'', ''A1''), (''filename'', ''awr1.txt''),
                                       (''source_path'', ''temp_files/awr1.txt'')]"

text \<open>
  A file system with one unparsable ledger file and one good one, and a parser that
  accepts the good contents only, for the examples.
\<close>

definition example_fs :: "string \<Rightarrow> file_state" where
  "example_fs path =
     (if path = ''corrupt.json'' then Contents ''{oops''
      else if path = ''good.json'' then Contents ''good''
      else if path = ''locked.json'' then Unreadable (Exception ''Permission denied'')
      else Missing)"

definition example_json_load :: "string \<Rightarrow> py_exception + json" where
  "example_json_load text =
     (if text = ''good'' then Inr (JObject [(''version'', JString ''1.0''), (''documents'', JObject [])])
      else Inl (ValueError ''Expecting property name''))"

text \<open>
  Stand-ins for the outside world in the examples: a directory where one path is gone; a
  loader that returns one document holding the text of the file (an empty text for a
  file of blank lines, no document for one path, an error otherwise); and a splitter
  that keeps a short text whole and yields no piece for an empty text.
\<close>

definition example_exists :: "string \<Rightarrow> bool" where
  "example_exists path = (path \<noteq> ''temp_files/gone.txt'')"

definition example_loader :: "string \<Rightarrow> py_exception + document list" where
  "example_loader path =
     (if path = ''temp_files/awr1.txt'' then Inr [Document ''CPU usage'' [(''source'', path)]]
      else if path = ''temp_files/blank.txt'' then Inr [Document [] [(''source'', path)]]
      else if path = ''temp_files/none.txt'' then Inr []
      else Inl (ValueError ''Invalid file''))"

definition whole_text_splitter :: "string \<Rightarrow> string list" where
  "whole_text_splitter text = (if text = [] then [] else [text])"

text \<open>Identifiers and payloads for the examples.\<close>

definition example_new_id :: "nat \<Rightarrow> string" where
  "example_new_id n = replicate (Suc n) CHR ''x''"

definition example_rank :: "string \<Rightarrow> document list \<Rightarrow> document list" where
  "example_rank query pts = rev pts"

definition chunk_of :: "string \<Rightarrow> string \<Rightarrow> document" where
  "chunk_of doc_id text = Document text [(''document_id'', doc_id), (''filename'', ''awr.txt''),
                                         (''source_path'', ''temp_files/awr.txt'')]"

text \<open>
  A collection that stores nothing, and one that stores a single point whatever it is
  given, for the two branches of the count check.
\<close>

definition dropping_client :: "(document list) qdrant_client" where
  "dropping_client =
     (reference_client example_new_id example_rank)
       \<lparr>add_documents := (\<lambda>pts docs. (Inr (map (\<lambda>i. example_new_id i) [0..<length docs]), pts))\<rparr>"

definition merging_client :: "(document list) qdrant_client" where
  "merging_client =
     (reference_client example_new_id example_rank)
       \<lparr>add_documents := (\<lambda>pts docs.
          (Inr (map (\<lambda>i. example_new_id i) [0..<length docs]), pts @ take 1 docs))\<rparr>"

section \<open>Properties of the metadata ledger\<close>

subsection \<open>Association lists as dictionaries\<close>


lemma length_delete_present:
  "distinct (map fst xs) \<Longrightarrow> map_of xs k = Some v \<Longrightarrow> Suc (length (AList.delete k xs)) = length xs"
proof (induction xs)
  case Nil
  then show ?case by simp
next
  case (Cons x xs)
  obtain k' v' where x: "x = (k', v')" by (cases x)
  show ?case
  proof (cases "k' = k")
    case True
    with Cons.prems x have "k \<notin> fst ` set xs" by auto
    then have "AList.delete k xs = xs" by (simp add: delete_id)
    with True x show ?thesis by simp
  next
    case False
    with Cons x show ?thesis by simp
  qed
qed

lemma sum_delete_present:
  fixes f :: "document_entry \<Rightarrow> int"
  shows "distinct (map fst xs) \<Longrightarrow> map_of xs k = Some v \<Longrightarrow>
    sum_list (map (\<lambda>(i, e). f e) (AList.delete k xs)) = sum_list (map (\<lambda>(i, e). f e) xs) - f v"
proof (induction xs)
  case Nil
  then show ?case by simp
next
  case (Cons x xs)
  obtain k' v' where x: "x = (k', v')" by (cases x)
  show ?case
  proof (cases "k' = k")
    case True
    with Cons.prems x have "k \<notin> fst ` set xs" by auto
    then have "AList.delete k xs = xs" by (simp add: delete_id)
    with True x Cons.prems show ?thesis by simp
  next
    case False
    with Cons x show ?thesis by simp
  qed
qed

lemma sum_update_fresh:
  fixes f :: "document_entry \<Rightarrow> int"
  shows "map_of xs k = None \<Longrightarrow>
    sum_list (map (\<lambda>(i, e). f e) (AList.update k v xs)) = sum_list (map (\<lambda>(i, e). f e) xs) + f v"
  by (induction xs) (auto split: if_splits)

lemma sum_update_present:
  fixes f :: "document_entry \<Rightarrow> int"
  shows "map_of xs k = Some d \<Longrightarrow>
    sum_list (map (\<lambda>(i, e). f e) (AList.update k v xs)) = sum_list (map (\<lambda>(i, e). f e) xs) - f d + f v"
  by (induction xs) (auto split: if_splits)


lemma length_update_present:
  "map_of xs k = Some d \<Longrightarrow> length (AList.update k v xs) = length xs"
  by (induction xs) (auto split: if_splits)

lemma length_update_fresh:
  "map_of xs k = None \<Longrightarrow> length (AList.update k v xs) = Suc (length xs)"
  by (induction xs) (auto split: if_splits)

subsection \<open>Invariants of the reachable ledger states\<close>

lemma count_inv_empty: "count_inv (create_empty_metadata now)"
  by (simp add: count_inv_def create_empty_metadata_def)

lemma count_inv_step: "count_inv m \<Longrightarrow> count_inv (apply_op a m)"
proof (cases a)
  case (Register doc_id fname n_chunks n_bytes now)
  assume "count_inv m"
  then show ?thesis using Register
    by (simp add: count_inv_def register_document_def Let_def distinct_update)
next
  case (Unregister doc_id)
  assume inv: "count_inv m"
  show ?thesis
  proof (cases "map_of (documents m) doc_id")
    case None
    with inv Unregister show ?thesis by (simp add: unregister_document_def)
  next
    case (Some d)
    from inv have dist: "distinct (map fst (documents m))" by (simp add: count_inv_def)
    from length_delete_present [OF dist Some]
    have "int (length (AList.delete doc_id (documents m))) = int (length (documents m)) - 1"
      by linarith
    with inv Some Unregister show ?thesis
      by (simp add: count_inv_def unregister_document_def Let_def distinct_delete)
  qed
next
  case (UpdateStatus doc_id new_status now)
  assume inv: "count_inv m"
  show ?thesis
  proof (cases "map_of (documents m) doc_id")
    case None
    with inv UpdateStatus show ?thesis by (simp add: update_document_status_def)
  next
    case (Some d)
    with inv UpdateStatus show ?thesis
      by (simp add: count_inv_def update_document_status_def distinct_update
          length_update_present)
  qed
next
  case (ClearAll now)
  then show ?thesis by (simp add: clear_all_metadata_def count_inv_empty)
qed

lemma count_inv_run: "count_inv m \<Longrightarrow> count_inv (run_ops ops m)"
  unfolding run_ops_def
  by (induction ops arbitrary: m) (auto intro: count_inv_step)

lemma list_all_update:
  "list_all P xs \<Longrightarrow> P (k, v) \<Longrightarrow> list_all P (AList.update k v xs)"
  by (induction xs) (auto split: if_splits)

lemma list_all_delete:
  "list_all P xs \<Longrightarrow> list_all P (AList.delete k xs)"
  by (induction xs) (auto split: if_splits)

lemma list_all_map_of:
  "list_all P xs \<Longrightarrow> map_of xs k = Some v \<Longrightarrow> P (k, v)"
  by (induction xs) (auto split: if_splits)

lemma bound_inv_empty: "bound_inv (create_empty_metadata now)"
  using count_inv_empty [of now]
  by (simp add: bound_inv_def entries_nonneg_def recomputed_statistics_def
      create_empty_metadata_def count_inv_def)

lemma bound_inv_register:
  assumes inv: "bound_inv m" and c: "0 \<le> n_chunks" and s: "0 \<le> n_bytes"
  shows "bound_inv (snd (register_document doc_id fname n_chunks n_bytes now m))"
proof -
  let ?e = "\<lparr>filename = fname, chunk_count = n_chunks, file_size = n_bytes,
             ingested_at = now, status = ''indexed'', last_updated = None\<rparr>"
  let ?docs = "AList.update doc_id ?e (documents m)"
  have m': "documents (snd (register_document doc_id fname n_chunks n_bytes now m)) = ?docs"
    "total_chunks (statistics (snd (register_document doc_id fname n_chunks n_bytes now m)))
       = total_chunks (statistics m) + n_chunks"
    "total_size_bytes (statistics (snd (register_document doc_id fname n_chunks n_bytes now m)))
       = total_size_bytes (statistics m) + n_bytes"
    by (simp_all add: register_document_def Let_def)
  from inv have cnt: "count_inv m" and nn: "entries_nonneg (documents m)"
    and ch: "total_chunks (recomputed_statistics (documents m)) \<le> total_chunks (statistics m)"
    and sz: "total_size_bytes (recomputed_statistics (documents m)) \<le> total_size_bytes (statistics m)"
    by (simp_all add: bound_inv_def)
  have cnt': "count_inv (snd (register_document doc_id fname n_chunks n_bytes now m))"
    using count_inv_step [OF cnt, of "Register doc_id fname n_chunks n_bytes now"] by simp
  have nn': "entries_nonneg ?docs"
    using nn c s unfolding entries_nonneg_def by (intro list_all_update) simp_all
  have sums: "total_chunks (recomputed_statistics ?docs)
                \<le> total_chunks (recomputed_statistics (documents m)) + n_chunks \<and>
              total_size_bytes (recomputed_statistics ?docs)
                \<le> total_size_bytes (recomputed_statistics (documents m)) + n_bytes"
  proof (cases "map_of (documents m) doc_id")
    case None
    then show ?thesis
      by (simp add: recomputed_statistics_def sum_update_fresh)
  next
    case (Some d)
    from list_all_map_of [OF nn [unfolded entries_nonneg_def] Some]
    have "0 \<le> chunk_count d" "0 \<le> file_size d" by simp_all
    with Some show ?thesis
      by (simp add: recomputed_statistics_def sum_update_present)
  qed
  from cnt' nn' sums ch sz show ?thesis
    unfolding bound_inv_def m' by linarith
qed

lemma bound_inv_unregister:
  assumes inv: "bound_inv m"
  shows "bound_inv (snd (unregister_document doc_id m))"
proof (cases "map_of (documents m) doc_id")
  case None
  with inv show ?thesis by (simp add: unregister_document_def)
next
  case (Some d)
  from inv have cnt: "count_inv m" and nn: "entries_nonneg (documents m)"
    and ch: "total_chunks (recomputed_statistics (documents m)) \<le> total_chunks (statistics m)"
    and sz: "total_size_bytes (recomputed_statistics (documents m)) \<le> total_size_bytes (statistics m)"
    by (simp_all add: bound_inv_def)
  from cnt have dist: "distinct (map fst (documents m))" by (simp add: count_inv_def)
  have cnt': "count_inv (snd (unregister_document doc_id m))"
    using count_inv_step [OF cnt, of "Unregister doc_id"] by simp
  have nn': "entries_nonneg (AList.delete doc_id (documents m))"
    using nn unfolding entries_nonneg_def by (rule list_all_delete)
  from cnt' nn' ch sz Some show ?thesis
    by (simp add: bound_inv_def unregister_document_def Let_def recomputed_statistics_def
        sum_delete_present [OF dist Some])
qed

lemma bound_inv_update_status:
  assumes inv: "bound_inv m"
  shows "bound_inv (snd (update_document_status doc_id new_status now m))"
proof (cases "map_of (documents m) doc_id")
  case None
  with inv show ?thesis by (simp add: update_document_status_def)
next
  case (Some d)
  from inv have cnt: "count_inv m" and nn: "entries_nonneg (documents m)"
    and ch: "total_chunks (recomputed_statistics (documents m)) \<le> total_chunks (statistics m)"
    and sz: "total_size_bytes (recomputed_statistics (documents m)) \<le> total_size_bytes (statistics m)"
    by (simp_all add: bound_inv_def)
  from list_all_map_of [OF nn [unfolded entries_nonneg_def] Some]
  have d: "0 \<le> chunk_count d" "0 \<le> file_size d" by simp_all
  have cnt': "count_inv (snd (update_document_status doc_id new_status now m))"
    using count_inv_step [OF cnt, of "UpdateStatus doc_id new_status now"] by simp
  have nn': "entries_nonneg
      (AList.update doc_id (d\<lparr>status := new_status, last_updated := Some now\<rparr>) (documents m))"
    using nn d unfolding entries_nonneg_def by (intro list_all_update) simp_all
  from cnt' nn' ch sz Some show ?thesis
    by (simp add: bound_inv_def update_document_status_def recomputed_statistics_def
        sum_update_present)
qed

lemma bound_inv_step:
  "bound_inv m \<Longrightarrow> register_args_nonneg a \<Longrightarrow> bound_inv (apply_op a m)"
  by (cases a)
    (simp_all add: bound_inv_register bound_inv_unregister bound_inv_update_status
      clear_all_metadata_def bound_inv_empty)

lemma bound_inv_run:
  "bound_inv m \<Longrightarrow> list_all register_args_nonneg ops \<Longrightarrow> bound_inv (run_ops ops m)"
  unfolding run_ops_def
  by (induction ops arbitrary: m) (auto intro: bound_inv_step)

lemma sum_list_nonneg_entries:
  fixes f :: "document_entry \<Rightarrow> int"
  shows "list_all (\<lambda>(i, e). 0 \<le> f e) xs \<Longrightarrow> 0 \<le> sum_list (map (\<lambda>(i, e). f e) xs)"
  by (induction xs) auto

lemma bound_inv_nonneg:
  assumes "bound_inv m"
  shows "0 \<le> total_documents (statistics m) \<and> 0 \<le> total_chunks (statistics m) \<and>
         0 \<le> total_size_bytes (statistics m)"
proof -
  from assms have nn: "list_all (\<lambda>(i, e). 0 \<le> chunk_count e \<and> 0 \<le> file_size e) (documents m)"
    by (simp add: bound_inv_def entries_nonneg_def)
  have "list_all (\<lambda>(i, e). 0 \<le> chunk_count e) (documents m)"
    using nn by (induction "documents m") (auto simp: list_all_iff)
  then have c: "0 \<le> total_chunks (recomputed_statistics (documents m))"
    unfolding recomputed_statistics_def by (simp add: sum_list_nonneg_entries)
  have "list_all (\<lambda>(i, e). 0 \<le> file_size e) (documents m)"
    using nn by (induction "documents m") (auto simp: list_all_iff)
  then have s: "0 \<le> total_size_bytes (recomputed_statistics (documents m))"
    unfolding recomputed_statistics_def by (simp add: sum_list_nonneg_entries)
  from assms c s show ?thesis
    by (simp add: bound_inv_def count_inv_def)
qed

lemma two_docs_eval:
  "two_docs = \<lparr>version = ''1.0'', created_at = ''t0'',
     documents = [(''A1'', \<lparr>filename = ''awr1.txt'', chunk_count = 3, file_size = 1200,
                     ingested_at = ''t1'', status = ''indexed'', last_updated = None\<rparr>),
                  (''A2'', \<lparr>filename = ''awr2.txt'', chunk_count = 2, file_size = 800,
                     ingested_at = ''t2'', status = ''indexed'', last_updated = None\<rparr>)],
     statistics = \<lparr>total_documents = 2, total_chunks = 5, total_size_bytes = 2000\<rparr>\<rparr>"
  by (simp add: two_docs_def run_ops_def register_document_def create_empty_metadata_def Let_def)

lemma stats_inv_step:
  assumes inv: "stats_inv m" and fr: "fresh_registers [a] m"
  shows "stats_inv (apply_op a m)"
proof (cases a)
  case (Register doc_id fname n_chunks n_bytes now)
  with fr have fresh: "map_of (documents m) doc_id = None"
    by (simp add: document_exists_def)
  with inv Register show ?thesis
    by (simp add: stats_inv_def register_document_def Let_def distinct_update
        recomputed_statistics_def sum_update_fresh length_update_fresh)
next
  case (Unregister doc_id)
  show ?thesis
  proof (cases "map_of (documents m) doc_id")
    case None
    with inv Unregister show ?thesis by (simp add: unregister_document_def)
  next
    case (Some d)
    from inv have dist: "distinct (map fst (documents m))" by (simp add: stats_inv_def)
    from length_delete_present [OF dist Some]
    have "int (length (AList.delete doc_id (documents m))) = int (length (documents m)) - 1"
      by linarith
    with inv Some Unregister show ?thesis
      by (simp add: stats_inv_def unregister_document_def Let_def distinct_delete
          recomputed_statistics_def sum_delete_present [OF dist Some])
  qed
next
  case (UpdateStatus doc_id new_status now)
  show ?thesis
  proof (cases "map_of (documents m) doc_id")
    case None
    with inv UpdateStatus show ?thesis by (simp add: update_document_status_def)
  next
    case (Some d)
    with inv UpdateStatus show ?thesis
      by (simp add: stats_inv_def update_document_status_def distinct_update
          recomputed_statistics_def sum_update_present length_update_present)
  qed
next
  case (ClearAll now)
  then show ?thesis
    by (simp add: clear_all_metadata_def stats_inv_def create_empty_metadata_def
        recomputed_statistics_def)
qed

lemma statistics_match_without_overwrite:
  "stats_inv m \<Longrightarrow> fresh_registers ops m \<Longrightarrow> stats_inv (run_ops ops m)"
  unfolding run_ops_def
proof (induction ops arbitrary: m)
  case Nil
  then show ?case by simp
next
  case (Cons a ops)
  from Cons.prems have "fresh_registers [a] m" and rest: "fresh_registers ops (apply_op a m)"
    by simp_all
  with Cons.prems(1) have "stats_inv (apply_op a m)" by (intro stats_inv_step)
  from Cons.IH [OF this rest] show ?case by simp
qed

subsection \<open>The claims about the ledger\<close>

text \<open>
  C8. Round trip: immediately after \<open>register_document doc_id f c s\<close>, the query
  \<open>document_exists doc_id\<close> is true and \<open>get_document_info doc_id\<close> returns an entry
  with filename \<open>f\<close>, chunk count \<open>c\<close>, file size \<open>s\<close> and status \<open>indexed\<close>.
\<close>

theorem register_then_lookup:
  "document_exists doc_id (snd (register_document doc_id f c s now m)) \<and>
   (\<exists>e. get_document_info doc_id (snd (register_document doc_id f c s now m)) = Some e \<and>
        filename e = f \<and> chunk_count e = c \<and> file_size e = s \<and> status e = ''indexed'')"
  by (simp add: document_exists_def get_document_info_def register_document_def Let_def
      update_conv')

text \<open>
  C9. At every reachable ledger state the stored \<open>total_documents\<close> counter equals
  the number of entries in the documents dictionary (whose keys are distinct), whatever
  happens to the other two aggregates.
\<close>

theorem total_documents_is_entry_count:
  "distinct (map fst (documents (run_ops ops (create_empty_metadata t0)))) \<and>
   total_documents (get_statistics (run_ops ops (create_empty_metadata t0))) =
     int (length (get_all_documents (run_ops ops (create_empty_metadata t0))))"
  using count_inv_run [OF count_inv_empty, of ops t0]
  by (simp add: count_inv_def get_statistics_def get_all_documents_def)

text \<open>
  C1, as stated, fails when the identifier is already registered: \<open>total_documents\<close>
  is assigned \<^verbatim>\<open>len(self.metadata['documents'])\<close>, which an overwrite does not change.
\<close>

theorem register_overwrite_counterexample:
  "document_exists ''A1'' two_docs \<and>
   total_documents (get_statistics (snd (register_document ''A1'' ''awr1.txt'' 3 1200 ''t3'' two_docs)))
     \<noteq> total_documents (get_statistics two_docs) + 1"
  by (simp add: two_docs_eval document_exists_def get_statistics_def register_document_def Let_def)

text \<open>
  C1, amended. Every call of \<open>register_document\<close> returns true, stores the entry under
  \<open>doc_id\<close> with status \<open>indexed\<close>, leaves the other entries alone and sets
  \<open>total_documents\<close> to the number of entries. When \<open>doc_id\<close> was not registered, the
  number of entries grows by one and \<open>total_chunks\<close>, \<open>total_size_bytes\<close> grow by the
  chunk count and the file size (and \<open>total_documents\<close> by one, when it was in step with
  the number of entries before). When \<open>doc_id\<close> was registered, the number of entries
  stays the same.
\<close>

theorem register_document_spec:
  "fst (register_document doc_id f c s now m) = True \<and>
   get_document_info doc_id (snd (register_document doc_id f c s now m))
     = Some \<lparr>filename = f, chunk_count = c, file_size = s, ingested_at = now,
             status = ''indexed'', last_updated = None\<rparr> \<and>
   (\<forall>k. k \<noteq> doc_id \<longrightarrow>
      get_document_info k (snd (register_document doc_id f c s now m)) = get_document_info k m) \<and>
   total_documents (get_statistics (snd (register_document doc_id f c s now m)))
     = int (length (get_all_documents (snd (register_document doc_id f c s now m)))) \<and>
   (\<not> document_exists doc_id m \<longrightarrow>
      length (get_all_documents (snd (register_document doc_id f c s now m)))
        = length (get_all_documents m) + 1 \<and>
      total_chunks (get_statistics (snd (register_document doc_id f c s now m)))
        = total_chunks (get_statistics m) + c \<and>
      total_size_bytes (get_statistics (snd (register_document doc_id f c s now m)))
        = total_size_bytes (get_statistics m) + s \<and>
      (total_documents (get_statistics m) = int (length (get_all_documents m)) \<longrightarrow>
         total_documents (get_statistics (snd (register_document doc_id f c s now m)))
           = total_documents (get_statistics m) + 1)) \<and>
   (document_exists doc_id m \<longrightarrow>
      length (get_all_documents (snd (register_document doc_id f c s now m)))
        = length (get_all_documents m))"
proof (intro conjI impI allI)
  show "fst (register_document doc_id f c s now m) = True"
    by (simp add: register_document_def Let_def)
  show "get_document_info doc_id (snd (register_document doc_id f c s now m))
     = Some \<lparr>filename = f, chunk_count = c, file_size = s, ingested_at = now,
             status = ''indexed'', last_updated = None\<rparr>"
    by (simp add: register_document_def Let_def get_document_info_def update_conv')
  show "total_documents (get_statistics (snd (register_document doc_id f c s now m)))
     = int (length (get_all_documents (snd (register_document doc_id f c s now m))))"
    by (simp add: register_document_def Let_def get_statistics_def get_all_documents_def)
next
  fix k assume "k \<noteq> doc_id"
  then show "get_document_info k (snd (register_document doc_id f c s now m)) = get_document_info k m"
    by (simp add: register_document_def Let_def get_document_info_def update_conv')
next
  assume "document_exists doc_id m"
  then obtain d where "map_of (documents m) doc_id = Some d"
    by (auto simp: document_exists_def)
  then show "length (get_all_documents (snd (register_document doc_id f c s now m)))
        = length (get_all_documents m)"
    by (simp add: register_document_def Let_def get_all_documents_def length_update_present)
next
  assume "\<not> document_exists doc_id m"
  then have fresh: "map_of (documents m) doc_id = None"
    by (simp add: document_exists_def)
  then show len: "length (get_all_documents (snd (register_document doc_id f c s now m)))
        = length (get_all_documents m) + 1"
    by (simp add: register_document_def Let_def get_all_documents_def length_update_fresh)
  show "total_chunks (get_statistics (snd (register_document doc_id f c s now m)))
        = total_chunks (get_statistics m) + c"
    by (simp add: register_document_def Let_def get_statistics_def)
  show "total_size_bytes (get_statistics (snd (register_document doc_id f c s now m)))
        = total_size_bytes (get_statistics m) + s"
    by (simp add: register_document_def Let_def get_statistics_def)
  assume "total_documents (get_statistics m) = int (length (get_all_documents m))"
  with fresh show "total_documents (get_statistics (snd (register_document doc_id f c s now m)))
           = total_documents (get_statistics m) + 1"
    by (simp add: register_document_def Let_def get_statistics_def get_all_documents_def
        length_update_fresh)
qed

theorem register_document_spec_witness:
  "\<not> document_exists ''A3'' two_docs \<and>
   total_documents (get_statistics two_docs) = int (length (get_all_documents two_docs)) \<and>
   total_documents (get_statistics (snd (register_document ''A3'' ''awr3.txt'' 4 900 ''t3'' two_docs))) = 3 \<and>
   total_chunks (get_statistics (snd (register_document ''A3'' ''awr3.txt'' 4 900 ''t3'' two_docs))) = 9 \<and>
   total_size_bytes (get_statistics (snd (register_document ''A3'' ''awr3.txt'' 4 900 ''t3'' two_docs))) = 2900 \<and>
   document_exists ''A1'' two_docs \<and>
   length (get_all_documents (snd (register_document ''A1'' ''awr1.txt'' 3 1200 ''t3'' two_docs))) = 2"
proof -
  have h1: "\<not> document_exists ''A3'' two_docs"
    by (simp add: two_docs_eval document_exists_def)
  have h2: "total_documents (get_statistics two_docs) = int (length (get_all_documents two_docs))"
    by (simp add: two_docs_eval get_statistics_def get_all_documents_def)
  have h3: "document_exists ''A1'' two_docs"
    by (simp add: two_docs_eval document_exists_def)
  have st: "get_statistics two_docs
     = \<lparr>total_documents = 2, total_chunks = 5, total_size_bytes = 2000\<rparr>"
    "length (get_all_documents two_docs) = 2"
    by (simp_all add: two_docs_eval get_statistics_def get_all_documents_def)
  note fresh = register_document_spec [of "''A3''" "''awr3.txt''" 4 900 "''t3''" two_docs]
  note over = register_document_spec [of "''A1''" "''awr1.txt''" 3 1200 "''t3''" two_docs]
  from fresh h1 h2 have a:
    "total_documents (get_statistics (snd (register_document ''A3'' ''awr3.txt'' 4 900 ''t3'' two_docs))) = 3"
    "total_chunks (get_statistics (snd (register_document ''A3'' ''awr3.txt'' 4 900 ''t3'' two_docs))) = 9"
    "total_size_bytes (get_statistics (snd (register_document ''A3'' ''awr3.txt'' 4 900 ''t3'' two_docs))) = 2900"
    by (simp_all add: st)
  from over h3 have b:
    "length (get_all_documents (snd (register_document ''A1'' ''awr1.txt'' 3 1200 ''t3'' two_docs))) = 2"
    by (simp add: st)
  from h1 h2 a h3 b show ?thesis by blast
qed

text \<open>
  C2. The claim is that the stored statistics always equal the statistics recomputed
  from the entries. Registering the same identifier twice adds the chunk count and the
  file size a second time without taking the overwritten entry's contribution out:
  the stored totals are \<open>(1, 6, 2400)\<close>, the recomputed ones \<open>(1, 3, 1200)\<close>.
\<close>

theorem reregister_statistics_drift:
  "get_statistics (run_ops [Register ''A1'' ''awr1.txt'' 3 1200 ''t1'',
                            Register ''A1'' ''awr1.txt'' 3 1200 ''t2''] (create_empty_metadata ''t0''))
     = \<lparr>total_documents = 1, total_chunks = 6, total_size_bytes = 2400\<rparr> \<and>
   recomputed_statistics (get_all_documents (run_ops [Register ''A1'' ''awr1.txt'' 3 1200 ''t1'',
                            Register ''A1'' ''awr1.txt'' 3 1200 ''t2''] (create_empty_metadata ''t0'')))
     = \<lparr>total_documents = 1, total_chunks = 3, total_size_bytes = 1200\<rparr>"
  by (simp add: run_ops_def register_document_def create_empty_metadata_def Let_def
      get_statistics_def get_all_documents_def recomputed_statistics_def)

text \<open>
  C4. Unregistering a registered document returns true, removes its entry only, and
  lowers the three aggregates by \<open>(1, chunk_count, file_size)\<close> of that entry;
  unregistering an identifier that is not registered returns false and leaves the
  whole ledger as it was; and at every reachable state whose registrations carried
  non-negative counts and sizes, no aggregate is negative.
\<close>

theorem unregister_document_spec:
  "(get_document_info doc_id m = Some d \<longrightarrow>
      fst (unregister_document doc_id m) = True \<and>
      \<not> document_exists doc_id (snd (unregister_document doc_id m)) \<and>
      (\<forall>k. k \<noteq> doc_id \<longrightarrow>
         get_document_info k (snd (unregister_document doc_id m)) = get_document_info k m) \<and>
      total_documents (get_statistics (snd (unregister_document doc_id m)))
        = total_documents (get_statistics m) - 1 \<and>
      total_chunks (get_statistics (snd (unregister_document doc_id m)))
        = total_chunks (get_statistics m) - chunk_count d \<and>
      total_size_bytes (get_statistics (snd (unregister_document doc_id m)))
        = total_size_bytes (get_statistics m) - file_size d) \<and>
   (\<not> document_exists other_id m \<longrightarrow> unregister_document other_id m = (False, m)) \<and>
   (list_all register_args_nonneg ops \<longrightarrow>
      0 \<le> total_documents (get_statistics (run_ops ops (create_empty_metadata t0))) \<and>
      0 \<le> total_chunks (get_statistics (run_ops ops (create_empty_metadata t0))) \<and>
      0 \<le> total_size_bytes (get_statistics (run_ops ops (create_empty_metadata t0))))"
proof (intro conjI impI)
  assume "list_all register_args_nonneg ops"
  from bound_inv_nonneg [OF bound_inv_run [OF bound_inv_empty this], of t0]
  show "0 \<le> total_documents (get_statistics (run_ops ops (create_empty_metadata t0)))"
    and "0 \<le> total_chunks (get_statistics (run_ops ops (create_empty_metadata t0)))"
    and "0 \<le> total_size_bytes (get_statistics (run_ops ops (create_empty_metadata t0)))"
    by (simp_all add: get_statistics_def)
next
  assume "\<not> document_exists other_id m"
  then show "unregister_document other_id m = (False, m)"
    by (simp add: document_exists_def unregister_document_def)
next
  assume d: "get_document_info doc_id m = Some d"
  then show "fst (unregister_document doc_id m) = True"
    by (simp add: get_document_info_def unregister_document_def Let_def)
  from d show "\<not> document_exists doc_id (snd (unregister_document doc_id m))"
    by (simp add: get_document_info_def unregister_document_def Let_def document_exists_def
        delete_conv')
  from d show "\<forall>k. k \<noteq> doc_id \<longrightarrow>
         get_document_info k (snd (unregister_document doc_id m)) = get_document_info k m"
    by (simp add: get_document_info_def unregister_document_def Let_def)
  from d show "total_documents (get_statistics (snd (unregister_document doc_id m)))
        = total_documents (get_statistics m) - 1"
    by (simp add: get_document_info_def unregister_document_def Let_def get_statistics_def)
  from d show "total_chunks (get_statistics (snd (unregister_document doc_id m)))
        = total_chunks (get_statistics m) - chunk_count d"
    by (simp add: get_document_info_def unregister_document_def Let_def get_statistics_def)
  from d show "total_size_bytes (get_statistics (snd (unregister_document doc_id m)))
        = total_size_bytes (get_statistics m) - file_size d"
    by (simp add: get_document_info_def unregister_document_def Let_def get_statistics_def)
qed

theorem unregister_document_spec_witness:
  "get_document_info ''A1'' two_docs
     = Some \<lparr>filename = ''awr1.txt'', chunk_count = 3, file_size = 1200,
             ingested_at = ''t1'', status = ''indexed'', last_updated = None\<rparr> \<and>
   fst (unregister_document ''A1'' two_docs) = True \<and>
   get_statistics (snd (unregister_document ''A1'' two_docs))
     = \<lparr>total_documents = 1, total_chunks = 2, total_size_bytes = 800\<rparr> \<and>
   \<not> document_exists ''B'' two_docs \<and>
   unregister_document ''B'' two_docs = (False, two_docs) \<and>
   list_all register_args_nonneg [Register ''A1'' ''awr1.txt'' 3 1200 ''t1'', Unregister ''A1'',
                                  Unregister ''A1''] \<and>
   0 \<le> total_chunks (get_statistics (run_ops [Register ''A1'' ''awr1.txt'' 3 1200 ''t1'',
          Unregister ''A1'', Unregister ''A1''] (create_empty_metadata ''t0'')))"
proof -
  let ?d = "\<lparr>filename = ''awr1.txt'', chunk_count = 3, file_size = 1200,
             ingested_at = ''t1'', status = ''indexed'', last_updated = None\<rparr>"
  let ?ops = "[Register ''A1'' ''awr1.txt'' 3 1200 ''t1'', Unregister ''A1'', Unregister ''A1'']"
  have h1: "get_document_info ''A1'' two_docs = Some ?d"
    by (simp add: two_docs_eval get_document_info_def)
  have h2: "\<not> document_exists ''B'' two_docs"
    by (simp add: two_docs_eval document_exists_def)
  have h3: "list_all register_args_nonneg ?ops" by simp
  have st: "get_statistics two_docs
     = \<lparr>total_documents = 2, total_chunks = 5, total_size_bytes = 2000\<rparr>"
    by (simp add: two_docs_eval get_statistics_def)
  note spec = unregister_document_spec [of "''A1''" two_docs ?d "''B''" ?ops "''t0''"]
  from spec h1 have a: "fst (unregister_document ''A1'' two_docs) = True"
    and b: "total_documents (get_statistics (snd (unregister_document ''A1'' two_docs))) = 1"
    and c: "total_chunks (get_statistics (snd (unregister_document ''A1'' two_docs))) = 2"
    and e: "total_size_bytes (get_statistics (snd (unregister_document ''A1'' two_docs))) = 800"
    by (simp_all add: st)
  from b c e have f: "get_statistics (snd (unregister_document ''A1'' two_docs))
     = \<lparr>total_documents = 1, total_chunks = 2, total_size_bytes = 800\<rparr>"
    by (cases "get_statistics (snd (unregister_document ''A1'' two_docs))") simp
  from spec h2 have g: "unregister_document ''B'' two_docs = (False, two_docs)" by blast
  from spec h3 have h: "0 \<le> total_chunks (get_statistics (run_ops ?ops (create_empty_metadata ''t0'')))"
    by blast
  from h1 a f h2 g h3 h show ?thesis by blast
qed

section \<open>Properties of the chunk processor\<close>

subsection \<open>Validating chunks\<close>

lemma dropWhile_all_iff:
  "(\<forall>x\<in>set (dropWhile P xs). P x) \<longleftrightarrow> (\<forall>x\<in>set xs. P x)"
proof
  assume a: "\<forall>x\<in>set (dropWhile P xs). P x"
  have "dropWhile P xs = []"
  proof (rule ccontr)
    assume ne: "dropWhile P xs \<noteq> []"
    then have "\<not> P (hd (dropWhile P xs))" by (rule hd_dropWhile)
    moreover from ne have "hd (dropWhile P xs) \<in> set (dropWhile P xs)" by simp
    ultimately show False using a by blast
  qed
  then show "\<forall>x\<in>set xs. P x" by (simp only: dropWhile_eq_Nil_conv)
next
  assume "\<forall>x\<in>set xs. P x"
  then show "\<forall>x\<in>set (dropWhile P xs). P x"
    by (meson set_dropWhileD)
qed

lemma strip_empty_iff: "length (strip s) = 0 \<longleftrightarrow> (\<forall>c\<in>set s. isspace c)"
proof -
  have "length (strip s) = 0 \<longleftrightarrow> dropWhile isspace (rev (dropWhile isspace s)) = []"
    by (simp add: strip_def)
  also have "\<dots> \<longleftrightarrow> (\<forall>x\<in>set (dropWhile isspace s). isspace x)"
    by (simp add: dropWhile_eq_Nil_conv)
  also have "\<dots> \<longleftrightarrow> (\<forall>c\<in>set s. isspace c)"
    by (rule dropWhile_all_iff)
  finally show ?thesis .
qed

lemma fields_present_required:
  "fields_present required_fields md \<longleftrightarrow>
     map_of md ''document_id'' \<noteq> None \<and> map_of md ''filename'' \<noteq> None \<and>
     map_of md ''source_path'' \<noteq> None"
  by (simp add: required_fields_def)

lemma validate_loop_all:
  "validate_loop chunks =
     list_all (\<lambda>c. map_of (metadata c) ''document_id'' \<noteq> None \<and>
                   map_of (metadata c) ''filename'' \<noteq> None \<and>
                   map_of (metadata c) ''source_path'' \<noteq> None \<and>
                   (\<exists>ch\<in>set (page_content c). \<not> isspace ch)) chunks"
proof (induction chunks)
  case Nil
  then show ?case by simp
next
  case (Cons c cs)
  have blank: "(page_content c = [] \<or> length (strip (page_content c)) = 0)
                 \<longleftrightarrow> \<not> (\<exists>ch\<in>set (page_content c). \<not> isspace ch)"
    using strip_empty_iff [of "page_content c"] by auto
  show ?case
    unfolding validate_loop.simps fields_present_required blank Cons.IH by auto
qed

text \<open>
  C10. \<open>validate_chunks\<close> of the empty list is false, although the condition on the
  chunks holds for every chunk of an empty list; for a non-empty list it is true exactly
  when every chunk has the keys \<open>document_id\<close>, \<open>filename\<close> and \<open>source_path\<close> in its
  metadata and a content with at least one character that is not white space.
\<close>

theorem validate_chunks_spec:
  "validate_chunks [] = False \<and>
   (chunks \<noteq> [] \<longrightarrow>
      validate_chunks chunks =
        list_all (\<lambda>c. map_of (metadata c) ''document_id'' \<noteq> None \<and>
                      map_of (metadata c) ''filename'' \<noteq> None \<and>
                      map_of (metadata c) ''source_path'' \<noteq> None \<and>
                      (\<exists>ch\<in>set (page_content c). \<not> isspace ch)) chunks)"
  by (simp add: validate_chunks_def validate_loop_all)

theorem validate_chunks_spec_witness:
  "[stamped_chunk ''CPU''] \<noteq> [] \<and> validate_chunks [stamped_chunk ''CPU''] = True \<and>
   [stamped_chunk ''CPU'', stamped_chunk ''  ''] \<noteq> [] \<and>
   validate_chunks [stamped_chunk ''CPU'', stamped_chunk ''  ''] = False"
  using validate_chunks_spec [of "[stamped_chunk ''CPU'']"]
    validate_chunks_spec [of "[stamped_chunk ''CPU'', stamped_chunk ''  '']"]
  by (simp add: stamped_chunk_def isspace_def)

section \<open>Properties of loading the ledger\<close>

lemma load_metadata_cases:
  "load_metadata fs json_load now file
     = (case load_metadata_try json_load (fs file) of
          Inr data \<Rightarrow> Inr data
        | Inl e \<Rightarrow> Inr (metadata_to_json (create_empty_metadata now)))"
  by (simp add: load_metadata_def load_metadata_try_def)

text \<open>
  C7. \<open>load_metadata\<close> always returns a dictionary, and so the constructor always
  returns a manager. When the backing file is missing, cannot be read, or its contents
  do not parse, the result is the empty ledger structure: version \<open>1.0\<close>, the creation
  time, no documents and three aggregates equal to zero. When the file parses to a
  dictionary with a \<open>documents\<close> dictionary, the parsed dictionary is the result.
\<close>

theorem load_metadata_never_raises:
  "(\<exists>data. load_metadata fs json_load now file = Inr data) \<and>
   (\<exists>mgr. init_metadata_manager fs json_load now file = Inr mgr) \<and>
   (fs file = Missing \<longrightarrow>
      load_metadata fs json_load now file = Inr (metadata_to_json (create_empty_metadata now))) \<and>
   (fs file = Unreadable e \<longrightarrow>
      load_metadata fs json_load now file = Inr (metadata_to_json (create_empty_metadata now))) \<and>
   (fs file = Contents text \<and> json_load text = Inl e' \<longrightarrow>
      load_metadata fs json_load now file = Inr (metadata_to_json (create_empty_metadata now))) \<and>
   (fs file = Contents text' \<and> json_load text' = Inr (JObject kvs) \<and>
      map_of kvs ''documents'' = Some (JObject docs) \<longrightarrow>
      load_metadata fs json_load now file = Inr (JObject kvs)) \<and>
   metadata_to_json (create_empty_metadata now) =
     JObject [(''version'', JString ''1.0''), (''created_at'', JString now),
              (''documents'', JObject []),
              (''statistics'', JObject [(''total_documents'', JInt 0), (''total_chunks'', JInt 0),
                                        (''total_size_bytes'', JInt 0)])]"
proof (intro conjI impI)
  show ex: "\<exists>data. load_metadata fs json_load now file = Inr data"
    unfolding load_metadata_cases by (cases "load_metadata_try json_load (fs file)") simp_all
  then show "\<exists>mgr. init_metadata_manager fs json_load now file = Inr mgr"
    by (auto simp: init_metadata_manager_def)
  show "metadata_to_json (create_empty_metadata now) =
     JObject [(''version'', JString ''1.0''), (''created_at'', JString now),
              (''documents'', JObject []),
              (''statistics'', JObject [(''total_documents'', JInt 0), (''total_chunks'', JInt 0),
                                        (''total_size_bytes'', JInt 0)])]"
    by (simp add: metadata_to_json_def create_empty_metadata_def)
next
  assume "fs file = Missing"
  then show "load_metadata fs json_load now file = Inr (metadata_to_json (create_empty_metadata now))"
    by (simp add: load_metadata_def)
next
  assume "fs file = Unreadable e"
  then show "load_metadata fs json_load now file = Inr (metadata_to_json (create_empty_metadata now))"
    by (simp add: load_metadata_def load_metadata_try_def)
next
  assume "fs file = Contents text \<and> json_load text = Inl e'"
  then show "load_metadata fs json_load now file = Inr (metadata_to_json (create_empty_metadata now))"
    by (simp add: load_metadata_def load_metadata_try_def)
next
  assume "fs file = Contents text' \<and> json_load text' = Inr (JObject kvs) \<and>
      map_of kvs ''documents'' = Some (JObject docs)"
  then show "load_metadata fs json_load now file = Inr (JObject kvs)"
    by (simp add: load_metadata_def load_metadata_try_def)
qed

theorem load_metadata_never_raises_witness:
  "example_fs ''absent.json'' = Missing \<and>
   load_metadata example_fs example_json_load ''t0'' ''absent.json''
     = Inr (metadata_to_json (create_empty_metadata ''t0'')) \<and>
   example_fs ''locked.json'' = Unreadable (Exception ''Permission denied'') \<and>
   load_metadata example_fs example_json_load ''t0'' ''locked.json''
     = Inr (metadata_to_json (create_empty_metadata ''t0'')) \<and>
   example_fs ''corrupt.json'' = Contents ''{oops'' \<and>
   example_json_load ''{oops'' = Inl (ValueError ''Expecting property name'') \<and>
   load_metadata example_fs example_json_load ''t0'' ''corrupt.json''
     = Inr (metadata_to_json (create_empty_metadata ''t0'')) \<and>
   example_fs ''good.json'' = Contents ''good'' \<and>
   example_json_load ''good''
     = Inr (JObject [(''version'', JString ''1.0''), (''documents'', JObject [])]) \<and>
   load_metadata example_fs example_json_load ''t0'' ''good.json''
     = Inr (JObject [(''version'', JString ''1.0''), (''documents'', JObject [])])"
proof -
  have a: "example_fs ''absent.json'' = Missing"
    and b: "example_fs ''locked.json'' = Unreadable (Exception ''Permission denied'')"
    and c: "example_fs ''corrupt.json'' = Contents ''{oops''"
    and d: "example_fs ''good.json'' = Contents ''good''"
    by (simp_all add: example_fs_def)
  have p: "example_json_load ''{oops'' = Inl (ValueError ''Expecting property name'')"
    and q: "example_json_load ''good''
      = Inr (JObject [(''version'', JString ''1.0''), (''documents'', JObject [])])"
    by (simp_all add: example_json_load_def)
  have r: "map_of [(''version'', JString ''1.0''), (''documents'', JObject [])] ''documents''
             = Some (JObject [])" by simp
  from load_metadata_never_raises [of example_fs example_json_load "''t0''" "''absent.json''"] a
  have 1: "load_metadata example_fs example_json_load ''t0'' ''absent.json''
     = Inr (metadata_to_json (create_empty_metadata ''t0''))" by blast
  from load_metadata_never_raises [of example_fs example_json_load "''t0''" "''locked.json''"
      "Exception ''Permission denied''"] b
  have 2: "load_metadata example_fs example_json_load ''t0'' ''locked.json''
     = Inr (metadata_to_json (create_empty_metadata ''t0''))" by blast
  from load_metadata_never_raises [of example_fs example_json_load "''t0''" "''corrupt.json''" _
      "''{oops''" "ValueError ''Expecting property name''"] c p
  have 3: "load_metadata example_fs example_json_load ''t0'' ''corrupt.json''
     = Inr (metadata_to_json (create_empty_metadata ''t0''))" by blast
  from load_metadata_never_raises [of example_fs example_json_load "''t0''" "''good.json''" _ _ _
      "''good''" "[(''version'', JString ''1.0''), (''documents'', JObject [])]" "[]"] d q r
  have 4: "load_metadata example_fs example_json_load ''t0'' ''good.json''
     = Inr (JObject [(''version'', JString ''1.0''), (''documents'', JObject [])])" by blast
  from a b c d p q 1 2 3 4 show ?thesis by blast
qed

section \<open>Properties of loading and splitting a document\<close>

lemma stamp_fields:
  "map_of (metadata (stamp doc_id fname file_path d)) ''document_id'' = Some doc_id"
  "map_of (metadata (stamp doc_id fname file_path d)) ''filename'' = Some fname"
  "map_of (metadata (stamp doc_id fname file_path d)) ''source_path'' = Some file_path"
  by (simp_all add: stamp_def update_conv')

lemma split_documents_metadata:
  "c \<in> set (split_documents split_text docs) \<Longrightarrow> \<exists>d\<in>set docs. metadata c = metadata d"
  by (auto simp: split_documents_def)

lemma split_documents_contents:
  "map page_content (split_documents split_text docs)
     = concat (map (\<lambda>d. split_text (page_content d)) docs)"
  by (induction docs) (simp_all add: split_documents_def comp_def)

lemma split_stamped_fields:
  assumes "c \<in> set (split_documents split_text (map (stamp doc_id fname file_path) docs))"
  shows "map_of (metadata c) ''document_id'' = Some doc_id \<and>
         map_of (metadata c) ''filename'' = Some fname \<and>
         map_of (metadata c) ''source_path'' = Some file_path"
proof -
  from split_documents_metadata [OF assms]
  obtain d where "d \<in> set docs" and "metadata c = metadata (stamp doc_id fname file_path d)"
    by auto
  then show ?thesis by (simp add: stamp_fields)
qed

text \<open>
  What the function does on each path of its \<^verbatim>\<open>try\<close> block, and the stamping of the
  chunks it returns.
\<close>

lemma load_and_split_document_cases:
  "(\<not> path_exists file_path \<longrightarrow>
      load_and_split_document path_exists loader_load split_text file_path doc_id fname
        = Inl (CustomException (FileNotFoundError (''File not found: '' @ file_path)))) \<and>
   (path_exists file_path \<and> loader_load file_path = Inl e \<longrightarrow>
      load_and_split_document path_exists loader_load split_text file_path doc_id fname
        = Inl (CustomException e)) \<and>
   (path_exists file_path \<and> loader_load file_path = Inr [] \<longrightarrow>
      load_and_split_document path_exists loader_load split_text file_path doc_id fname
        = Inl (CustomException (ValueError (''No content loaded from '' @ fname)))) \<and>
   (load_and_split_document path_exists loader_load split_text file_path doc_id fname
      = Inr result \<longrightarrow>
      list_all (\<lambda>c. map_of (metadata c) ''document_id'' = Some doc_id \<and>
                    map_of (metadata c) ''filename'' = Some fname \<and>
                    map_of (metadata c) ''source_path'' = Some file_path) result)"
proof (intro conjI impI)
  assume "\<not> path_exists file_path"
  then show "load_and_split_document path_exists loader_load split_text file_path doc_id fname
        = Inl (CustomException (FileNotFoundError (''File not found: '' @ file_path)))"
    by (simp add: load_and_split_document_def load_documents_def)
next
  assume "path_exists file_path \<and> loader_load file_path = Inl e"
  then show "load_and_split_document path_exists loader_load split_text file_path doc_id fname
        = Inl (CustomException e)"
    by (simp add: load_and_split_document_def load_documents_def)
next
  assume "path_exists file_path \<and> loader_load file_path = Inr []"
  then show "load_and_split_document path_exists loader_load split_text file_path doc_id fname
        = Inl (CustomException (ValueError (''No content loaded from '' @ fname)))"
    by (simp add: load_and_split_document_def load_documents_def)
next
  assume r: "load_and_split_document path_exists loader_load split_text file_path doc_id fname
      = Inr result"
  then obtain docs where
    "result = split_documents split_text (map (stamp doc_id fname file_path) docs)"
    by (auto simp: load_and_split_document_def split: sum.splits)
  then show "list_all (\<lambda>c. map_of (metadata c) ''document_id'' = Some doc_id \<and>
                    map_of (metadata c) ''filename'' = Some fname \<and>
                    map_of (metadata c) ''source_path'' = Some file_path) result"
    unfolding list_all_iff using split_stamped_fields by blast
qed

text \<open>
  C6. The claim is that \<open>load_and_split_document\<close> raises when the source file does not
  exist or when loading yields no content, never returns an empty chunk sequence, and
  stamps every chunk it returns. The code has the check for it
  (\<^verbatim>\<open>if not documents: raise ValueError("No content loaded from ...")\<close>), but the check
  looks at the list of loaded documents, not at their content. A file of blank lines
  exists and loads as one document with an empty text; the check passes, the text
  splits into no chunk, and the empty list is returned without an error, the list that
  \<open>validate_chunks\<close> rejects.
\<close>

theorem load_and_split_returns_empty:
  "example_exists ''temp_files/blank.txt'' \<and>
   example_loader ''temp_files/blank.txt''
     = Inr [Document [] [(''source'', ''temp_files/blank.txt'')]] \<and>
   load_and_split_document example_exists example_loader whole_text_splitter
     ''temp_files/blank.txt'' ''A1'' ''blank.txt'' = Inr [] \<and>
   validate_chunks [] = False"
  by (simp add: load_and_split_document_def load_documents_def example_exists_def
      example_loader_def whole_text_splitter_def split_documents_def stamp_def
      validate_chunks_def)

section \<open>Properties of indexing and retrieval\<close>

lemma index_documents_counts:
  assumes "docs \<noteq> []"
    and "get_points_count client st = Inr points_before"
    and "create_vectorstore client st = Inr ()"
    and "add_documents client st docs = (Inr ids, st')"
    and "get_points_count client st' = Inr points_after"
  shows "index_documents client st docs =
     (if points_after - points_before = 0 then
        (Inl (CustomException
                (Exception ''Documents were not indexed - no points added to collection!'')),
         st',
         [ErrorNoPointsAdded,
          ErrorIndexingFailed
            (Exception ''Documents were not indexed - no points added to collection!'')])
      else if points_after - points_before \<noteq> int (length docs) then
        (Inr ids, st', [WarnPointsMismatch (length docs) (points_after - points_before)])
      else (Inr ids, st', []))"
  using assms
  by (simp add: index_documents_def index_documents_try_def get_vectorstore_def Let_def)

text \<open>
  C3. For a non-empty list of chunks, \<open>index_documents\<close> reads the point count, adds
  the chunks and reads the point count again. When the two counts are equal it raises
  (a \<open>CustomException\<close> with the message that no points were added); when they differ
  by another number than the number of chunks it returns the identifiers and logs one
  warning; when they differ by the number of chunks it returns the identifiers and logs
  nothing. On the single-writer reference collection the count grows by exactly the
  number of chunks, and the call returns the identifiers without a warning.
\<close>

theorem index_documents_spec:
  "(docs \<noteq> [] \<and> get_points_count client st = Inr points_before \<and>
    create_vectorstore client st = Inr () \<and> add_documents client st docs = (Inr ids, st') \<and>
    get_points_count client st' = Inr points_after \<longrightarrow>
      (points_after - points_before = 0 \<longrightarrow>
         index_documents client st docs =
           (Inl (CustomException
                   (Exception ''Documents were not indexed - no points added to collection!'')),
            st',
            [ErrorNoPointsAdded,
             ErrorIndexingFailed
               (Exception ''Documents were not indexed - no points added to collection!'')])) \<and>
      (points_after - points_before \<noteq> 0 \<and> points_after - points_before \<noteq> int (length docs) \<longrightarrow>
         index_documents client st docs =
           (Inr ids, st', [WarnPointsMismatch (length docs) (points_after - points_before)])) \<and>
      (points_after - points_before = int (length docs) \<longrightarrow>
         index_documents client st docs = (Inr ids, st', []))) \<and>
   (chunks \<noteq> [] \<longrightarrow>
      index_documents (reference_client new_id rank) pts chunks =
        (Inr (map (\<lambda>i. new_id (length pts + i)) [0..<length chunks]), pts @ chunks, []) \<and>
      get_points_count (reference_client new_id rank) (pts @ chunks) =
        Inr (int (length pts) + int (length chunks)) \<and>
      get_points_count (reference_client new_id rank) pts = Inr (int (length pts)))"
proof (intro conjI impI)
  assume c: "chunks \<noteq> []"
  then show "index_documents (reference_client new_id rank) pts chunks =
        (Inr (map (\<lambda>i. new_id (length pts + i)) [0..<length chunks]), pts @ chunks, [])"
    by (simp add: index_documents_def index_documents_try_def get_vectorstore_def Let_def
        reference_client_def)
  show "get_points_count (reference_client new_id rank) (pts @ chunks) =
        Inr (int (length pts) + int (length chunks))"
    by (simp add: reference_client_def)
  show "get_points_count (reference_client new_id rank) pts = Inr (int (length pts))"
    by (simp add: reference_client_def)
next
  assume a: "docs \<noteq> [] \<and> get_points_count client st = Inr points_before \<and>
    create_vectorstore client st = Inr () \<and> add_documents client st docs = (Inr ids, st') \<and>
    get_points_count client st' = Inr points_after"
  then have eq: "index_documents client st docs =
     (if points_after - points_before = 0 then
        (Inl (CustomException
                (Exception ''Documents were not indexed - no points added to collection!'')),
         st',
         [ErrorNoPointsAdded,
          ErrorIndexingFailed
            (Exception ''Documents were not indexed - no points added to collection!'')])
      else if points_after - points_before \<noteq> int (length docs) then
        (Inr ids, st', [WarnPointsMismatch (length docs) (points_after - points_before)])
      else (Inr ids, st', []))"
    by (intro index_documents_counts) simp_all
  {
    assume "points_after - points_before = 0"
    with eq show "index_documents client st docs =
           (Inl (CustomException
                   (Exception ''Documents were not indexed - no points added to collection!'')),
            st',
            [ErrorNoPointsAdded,
             ErrorIndexingFailed
               (Exception ''Documents were not indexed - no points added to collection!'')])"
      by simp
  next
    assume "points_after - points_before \<noteq> 0 \<and> points_after - points_before \<noteq> int (length docs)"
    with eq show "index_documents client st docs =
           (Inr ids, st', [WarnPointsMismatch (length docs) (points_after - points_before)])"
      by simp
  next
    assume "points_after - points_before = int (length docs)"
    with a eq show "index_documents client st docs = (Inr ids, st', [])"
      by simp
  }
qed


theorem index_documents_spec_witness:
  "fst (index_documents dropping_client [] [chunk_of ''A1'' ''cpu'']) =
     Inl (CustomException
            (Exception ''Documents were not indexed - no points added to collection!'')) \<and>
   fst (index_documents merging_client [] [chunk_of ''A1'' ''cpu'', chunk_of ''A1'' ''io'']) =
     Inr (map (\<lambda>i. example_new_id i) [0..<length [chunk_of ''A1'' ''cpu'', chunk_of ''A1'' ''io'']]) \<and>
   snd (snd (index_documents merging_client [] [chunk_of ''A1'' ''cpu'', chunk_of ''A1'' ''io''])) =
     [WarnPointsMismatch 2 1] \<and>
   snd (index_documents (reference_client example_new_id example_rank) [chunk_of ''A0'' ''old'']
          [chunk_of ''A1'' ''cpu'', chunk_of ''A1'' ''io'']) =
     ([chunk_of ''A0'' ''old'', chunk_of ''A1'' ''cpu'', chunk_of ''A1'' ''io''], [])"
proof -
  let ?one = "[chunk_of ''A1'' ''cpu'']"
  let ?two = "[chunk_of ''A1'' ''cpu'', chunk_of ''A1'' ''io'']"
  have d: "?one \<noteq> [] \<and> get_points_count dropping_client [] = Inr 0 \<and>
    create_vectorstore dropping_client [] = Inr () \<and>
    add_documents dropping_client [] ?one
      = (Inr (map (\<lambda>i. example_new_id i) [0..<length ?one]), []) \<and>
    get_points_count dropping_client [] = Inr 0"
    by (simp add: dropping_client_def reference_client_def)
  have m: "?two \<noteq> [] \<and> get_points_count merging_client [] = Inr 0 \<and>
    create_vectorstore merging_client [] = Inr () \<and>
    add_documents merging_client [] ?two
      = (Inr (map (\<lambda>i. example_new_id i) [0..<length ?two]), [chunk_of ''A1'' ''cpu'']) \<and>
    get_points_count merging_client [chunk_of ''A1'' ''cpu''] = Inr 1"
    by (simp add: merging_client_def reference_client_def)
  from index_documents_spec [where docs = ?one and client = dropping_client and st = "[]"
      and points_before = 0 and st' = "[]" and points_after = 0
      and ids = "map (\<lambda>i. example_new_id i) [0..<length ?one]", THEN conjunct1] d
  have 1: "fst (index_documents dropping_client [] ?one) =
     Inl (CustomException
            (Exception ''Documents were not indexed - no points added to collection!''))"
    by simp
  from index_documents_spec [where docs = ?two and client = merging_client and st = "[]"
      and points_before = 0 and st' = "[chunk_of ''A1'' ''cpu'']" and points_after = 1
      and ids = "map (\<lambda>i. example_new_id i) [0..<length ?two]", THEN conjunct1] m
  have 2: "index_documents merging_client [] ?two =
     (Inr (map (\<lambda>i. example_new_id i) [0..<length ?two]), [chunk_of ''A1'' ''cpu''],
      [WarnPointsMismatch (length ?two) (1 - 0)])"
    by simp
  have 3: "?two \<noteq> []" by simp
  from index_documents_spec [where chunks = ?two and new_id = example_new_id
      and rank = example_rank and pts = "[chunk_of ''A0'' ''old'']", THEN conjunct2] 3
  have 4: "snd (index_documents (reference_client example_new_id example_rank)
                  [chunk_of ''A0'' ''old''] ?two)
             = ([chunk_of ''A0'' ''old''] @ ?two, [])"
    by simp
  from 1 2 4 show ?thesis by simp
qed

text \<open>
  C5. \<open>retrieve_documents\<close> with an empty list of identifiers runs the search with the
  given \<open>k\<close> and no filter; with a non-empty list it runs it with the filter "the payload
  key \<open>metadata.document_id\<close> matches any of the identifiers"; it returns what the search
  returns, an empty list included, and raises what the search raises. On the reference
  collection the unfiltered result is the first \<open>k\<close> payloads of the ranking of the whole
  collection, and the filtered result has at most \<open>k\<close> records, each with a
  \<open>document_id\<close> that is an element of the list.
\<close>

theorem retrieve_documents_spec:
  "(create_vectorstore client st = Inr () \<longrightarrow>
      retrieve_documents client st query [] k = similarity_search client st query k None \<and>
      (doc_ids \<noteq> [] \<longrightarrow>
         retrieve_documents client st query doc_ids k =
           similarity_search client st query k
             (Some (Filter [FieldCondition ''metadata.document_id'' (MatchAny doc_ids)])))) \<and>
   retrieve_documents (reference_client new_id rank) pts query [] k = Inr (take k (rank query pts)) \<and>
   (ids \<noteq> [] \<longrightarrow>
      (\<exists>found. retrieve_documents (reference_client new_id rank) pts query ids k = Inr found \<and>
         length found \<le> k \<and>
         list_all (\<lambda>d. \<exists>v. map_of (metadata d) ''document_id'' = Some v \<and> v \<in> set ids) found \<and>
         found = take k (filter (\<lambda>d. \<exists>v. map_of (metadata d) ''document_id'' = Some v \<and> v \<in> set ids)
                           (rank query pts))))"
proof (intro conjI impI)
  assume vs: "create_vectorstore client st = Inr ()"
  then show "retrieve_documents client st query [] k = similarity_search client st query k None"
    by (cases "similarity_search client st query k None")
      (simp_all add: retrieve_documents_def get_unfiltered_retriever_def get_vectorstore_def
        invoke_def)
  assume "doc_ids \<noteq> []"
  with vs show "retrieve_documents client st query doc_ids k =
           similarity_search client st query k
             (Some (Filter [FieldCondition ''metadata.document_id'' (MatchAny doc_ids)]))"
    by (cases "similarity_search client st query k
             (Some (Filter [FieldCondition ''metadata.document_id'' (MatchAny doc_ids)]))")
      (simp_all add: retrieve_documents_def get_filtered_retriever_def get_vectorstore_def
        invoke_def)
next
  show "retrieve_documents (reference_client new_id rank) pts query [] k
          = Inr (take k (rank query pts))"
    by (simp add: retrieve_documents_def get_unfiltered_retriever_def get_vectorstore_def
        invoke_def reference_client_def)
next
  assume ne: "ids \<noteq> []"
  let ?P = "\<lambda>d. \<exists>v. map_of (metadata d) ''document_id'' = Some v \<and> v \<in> set ids"
  have holds: "filter_holds (Some (Filter [FieldCondition ''metadata.document_id'' (MatchAny ids)])) = ?P"
    by (rule ext) (auto simp: payload_value_def split: option.splits)
  from ne have r: "retrieve_documents (reference_client new_id rank) pts query ids k
      = Inr (take k (filter ?P (rank query pts)))"
    by (simp add: retrieve_documents_def get_filtered_retriever_def get_vectorstore_def
        invoke_def reference_client_def holds)
  have "list_all ?P (take k (filter ?P (rank query pts)))"
    unfolding list_all_iff by (auto dest: in_set_takeD)
  with r show "\<exists>found. retrieve_documents (reference_client new_id rank) pts query ids k = Inr found \<and>
         length found \<le> k \<and> list_all ?P found \<and> found = take k (filter ?P (rank query pts))"
    by simp
qed

theorem retrieve_documents_spec_witness:
  "retrieve_documents (reference_client example_new_id example_rank)
     [chunk_of ''A1'' ''cpu'', chunk_of ''A10'' ''wait'', chunk_of ''A2'' ''io'', chunk_of ''A1'' ''sql'']
     ''cpu usage'' [''A1''] 10
     = Inr [chunk_of ''A1'' ''sql'', chunk_of ''A1'' ''cpu''] \<and>
   retrieve_documents (reference_client example_new_id example_rank)
     [chunk_of ''A1'' ''cpu'', chunk_of ''A10'' ''wait'', chunk_of ''A2'' ''io'', chunk_of ''A1'' ''sql'']
     ''cpu usage'' [''A3''] 10
     = Inr [] \<and>
   retrieve_documents (reference_client example_new_id example_rank)
     [chunk_of ''A1'' ''cpu'', chunk_of ''A10'' ''wait'', chunk_of ''A2'' ''io'', chunk_of ''A1'' ''sql'']
     ''cpu usage'' [] 3
     = Inr [chunk_of ''A1'' ''sql'', chunk_of ''A2'' ''io'', chunk_of ''A10'' ''wait'']"
proof -
  let ?pts = "[chunk_of ''A1'' ''cpu'', chunk_of ''A10'' ''wait'', chunk_of ''A2'' ''io'',
               chunk_of ''A1'' ''sql'']"
  let ?cl = "reference_client example_new_id example_rank"
  have vs: "create_vectorstore ?cl ?pts = Inr ()" by (simp add: reference_client_def)
  have n1: "[''A1''] \<noteq> []" and n3: "[''A3''] \<noteq> []" by simp_all
  from retrieve_documents_spec [where client = ?cl and st = ?pts and query = "''cpu usage''"
      and k = 10 and doc_ids = "[''A1'']", THEN conjunct1] vs n1
  have 1: "retrieve_documents ?cl ?pts ''cpu usage'' [''A1''] 10
     = Inr [chunk_of ''A1'' ''sql'', chunk_of ''A1'' ''cpu'']"
    by (simp add: reference_client_def example_rank_def chunk_of_def payload_value_def)
  from retrieve_documents_spec [where new_id = example_new_id and rank = example_rank
      and pts = ?pts and query = "''cpu usage''" and k = 10 and ids = "[''A3'']", THEN conjunct2, THEN conjunct2] n3
  have 2: "retrieve_documents ?cl ?pts ''cpu usage'' [''A3''] 10 = Inr []"
    by (auto simp: example_rank_def chunk_of_def)
  from retrieve_documents_spec [where new_id = example_new_id
      and rank = example_rank and pts = ?pts and query = "''cpu usage''" and k = 3, THEN conjunct2, THEN conjunct1]
  have 3: "retrieve_documents ?cl ?pts ''cpu usage'' [] 3
     = Inr [chunk_of ''A1'' ''sql'', chunk_of ''A2'' ''io'', chunk_of ''A10'' ''wait'']"
    by (simp add: example_rank_def)
  from 1 2 3 show ?thesis by blast
qed

end
